theory Spec2Isabelle
  imports Main "HOL-Library.Sublist"
begin

section \<open>Values shared by the whole script\<close>

text \<open>
  A Python exception is carried as its class name and the text that \<open>str(e)\<close> gives.
  Only instances of \<open>Exception\<close> are modelled: they are what \<open>pd.read_excel\<close> and list
  indexing raise, and what the \<open>except Exception\<close> clause of the loader catches.
\<close>

datatype py_exn = PyExn (exn_class: string) (exn_str: string)

text \<open>What the script shows on the page: \<open>st.error\<close>, \<open>st.info\<close>, \<open>st.success\<close>,
  \<open>st.warning\<close> and \<open>st.balloons\<close>, in the order of the calls.\<close>

datatype ui_msg =
    St_error string
  | St_info string
  | St_success string
  | St_warning string
  | St_balloons

text \<open>
  A cell of the sheet read by \<open>pd.read_excel\<close>: a missing value (NaN), a text, or an
  integer number. A column that mixes texts and numbers keeps each value as it was read.
\<close>

datatype cell = Null | Text string | Number int

text \<open>The loaded sheet: its columns in order, each with its header and its cells
  top to bottom.\<close>

type_synonym sheet = "(string \<times> cell list) list"

text \<open>
  A row of a team's table, with the three columns of \<open>default_data\<close>. \<open>None\<close> is the
  missing value (NaN) that pandas puts in the columns an assignment does not set.
  A table is the list of its rows, each with its index label.
\<close>

record factor_row =
  Fattore :: "string option"
  Valore :: "int option"
  Barra :: "int option"

type_synonym team_df = "(nat \<times> factor_row) list"

text \<open>
  \<open>st.session_state\<close>: a key is absent (\<open>None\<close>) or present with its value. The key
  \<open>imprevisti_df\<close> can be present and hold Python's \<open>None\<close>, which is \<open>Some None\<close> here.
\<close>

record session_state =
  team1_df :: "team_df option"
  team2_df :: "team_df option"
  imprevisti_df :: "sheet option option"

section \<open>initialize_state\<close>

definition factor_names :: "string list" where
  "factor_names =
    [ [CHR 0xF0, CHR 0x9F, CHR 0x91, CHR 0xA4] @ '' Popolazione'',
      [CHR 0xF0, CHR 0x9F, CHR 0xA5, CHR 0xAB] @ '' Cibo'',
      [CHR 0xF0, CHR 0x9F, CHR 0x92, CHR 0xB0] @ '' Finanze'',
      [CHR 0xF0, CHR 0x9F, CHR 0x9A, CHR 0x91] @ '' Ospedali'',
      [CHR 0xF0, CHR 0x9F, CHR 0x8E, CHR 0x92] @ '' Scuole'',
      [CHR 0xF0, CHR 0x9F, CHR 0x94, CHR 0x8B] @ '' Centrali Elettriche'',
      [CHR 0xE2, CHR 0x9B, CHR 0xAA] @ '' Luoghi di Culto'',
      [CHR 0xF0, CHR 0x9F, CHR 0xAB, CHR 0x82] @ '' Solidariet'' @ [CHR 0xC3, CHR 0xA0] ]"

text \<open>\<open>pd.DataFrame(default_data)\<close>: one row per factor, labelled 0 to 7, with
  \<open>Valore\<close> and \<open>Barra\<close> both 100.\<close>

definition default_df :: team_df where
  "default_df =
     map (\<lambda>(i, name). (i, \<lparr>Fattore = Some name, Valore = Some 100, Barra = Some 100\<rparr>))
       (enumerate 0 factor_names)"

definition initialize_state :: "session_state \<Rightarrow> session_state" where
  "initialize_state st =
    (let st1 = (if team1_df st = None then st\<lparr>team1_df := Some default_df\<rparr> else st);
         st2 = (if team2_df st1 = None then st1\<lparr>team2_df := Some default_df\<rparr> else st1)
     in if imprevisti_df st2 = None then st2\<lparr>imprevisti_df := Some None\<rparr> else st2)"

text \<open>The session before the script has run: no key is present.\<close>

definition empty_session :: session_state where
  "empty_session = \<lparr>team1_df = None, team2_df = None, imprevisti_df = None\<rparr>"

section \<open>Strings and lists as Python has them\<close>

text \<open>\<open>sub in s\<close> on strings.\<close>

fun is_substr :: "string \<Rightarrow> string \<Rightarrow> bool" where
  "is_substr sub [] = (sub = [])"
| "is_substr sub (c # cs) = (take (length sub) (c # cs) = sub \<or> is_substr sub cs)"

text \<open>
  \<open>s.split(sep)\<close> for a separator that is not empty: the text is cut at each occurrence
  of the separator, found left to right without overlap, and the result always has at
  least one piece (so the first branch of the \<open>case\<close> below is never taken).
\<close>

fun py_split :: "string \<Rightarrow> string \<Rightarrow> string list" where
  "py_split sep [] = [[]]"
| "py_split sep (c # cs) =
     (if sep \<noteq> [] \<and> take (length sep) (c # cs) = sep
      then [] # py_split sep (drop (length sep) (c # cs))
      else (case py_split sep cs of
              [] \<Rightarrow> [[c]]
            | p # ps \<Rightarrow> (c # p) # ps))"

text \<open>\<open>xs[i]\<close> on a list: a negative index counts from the end, and an index out of
  range raises \<open>IndexError\<close>.\<close>

definition index_error :: py_exn where
  "index_error = PyExn ''IndexError'' ''list index out of range''"

definition py_index :: "'a list \<Rightarrow> int \<Rightarrow> py_exn + 'a" where
  "py_index xs i =
     (if 0 \<le> i \<and> i < int (length xs) then Inr (xs ! nat i)
      else if i < 0 \<and> - int (length xs) \<le> i then Inr (xs ! nat (int (length xs) + i))
      else Inl index_error)"

text \<open>\<open>str(n)\<close> for an integer.\<close>

fun str_nat :: "nat \<Rightarrow> string" where
  "str_nat n =
     (if n < 10 then [''0123456789'' ! n]
      else str_nat (n div 10) @ [''0123456789'' ! (n mod 10)])"

declare str_nat.simps [simp del]

definition str_int :: "int \<Rightarrow> string" where
  "str_int i = (if i < 0 then ''-'' @ str_nat (nat (- i)) else str_nat (nat i))"

text \<open>What an f-string shows for a cell (\<open>nan\<close> for a missing value).\<close>

fun py_str :: "cell \<Rightarrow> string" where
  "py_str Null = ''nan''"
| "py_str (Text s) = s"
| "py_str (Number i) = str_int i"

section \<open>load_data_from_gdrive\<close>

text \<open>
  The network and the Excel parser are a parameter: what \<open>pd.read_excel(export_url,
  engine='openpyxl')\<close> gives for a URL, either the exception it raises (transport error,
  HTTP error status, a payload that is not a workbook) or the parsed sheet.
\<close>

type_synonym excel_source = "string \<Rightarrow> py_exn + sheet"

text \<open>What one call of the loader does: the URLs it gave to \<open>pd.read_excel\<close>, the
  messages it showed, and the value it returned.\<close>

record load_output =
  fetches :: "string list"
  ui :: "ui_msg list"
  ret :: "sheet option"

definition invalid_url_msg :: string where
  "invalid_url_msg = ''URL non valido. Assicurati sia un link Google Sheet.''"

definition missing_column_msg :: string where
  "missing_column_msg =
     ''Errore: Il file Excel DEVE avere una colonna chiamata 'imprevisto'.''"

definition sharing_hint_msg :: string where
  "sharing_hint_msg =
     ''Assicurati che il link di condivisione sia impostato su 'Chiunque abbia il link' -> 'Visualizzatore'.''"

text \<open>\<open>url.split('/d/')[1].split('/')[0]\<close>: either index may raise.\<close>

definition file_id_of :: "string \<Rightarrow> py_exn + string" where
  "file_id_of url =
     (case py_index (py_split ''/d/'' url) 1 of
        Inl e \<Rightarrow> Inl e
      | Inr rest \<Rightarrow> py_index (py_split ''/'' rest) 0)"

definition export_url_of :: "string \<Rightarrow> string" where
  "export_url_of file_id =
     ''https://docs.google.com/spreadsheets/d/'' @ file_id @ ''/export?format=xlsx''"

text \<open>The \<open>except Exception as e\<close> clause, after the fetches made so far.\<close>

definition except_clause :: "string list \<Rightarrow> py_exn \<Rightarrow> load_output" where
  "except_clause done e =
     \<lparr>fetches = done,
      ui = [St_error (''Errore nel caricamento o lettura del file: '' @ exn_str e),
            St_info sharing_hint_msg],
      ret = None\<rparr>"

text \<open>The body of the function, without its cache decorator. Each exception raised
  inside the \<open>try\<close> block goes to the \<open>except\<close> clause.\<close>

definition load_data_from_gdrive :: "excel_source \<Rightarrow> string \<Rightarrow> load_output" where
  "load_data_from_gdrive read_excel url =
     (if \<not> is_substr ''google.com'' url
      then \<lparr>fetches = [], ui = [St_error invalid_url_msg], ret = None\<rparr>
      else
        (case file_id_of url of
           Inl e \<Rightarrow> except_clause [] e
         | Inr file_id \<Rightarrow>
             (let export_url = export_url_of file_id
              in case read_excel export_url of
                   Inl e \<Rightarrow> except_clause [export_url] e
                 | Inr df \<Rightarrow>
                     if ''imprevisto'' \<notin> set (map fst df)
                     then \<lparr>fetches = [export_url], ui = [St_error missing_column_msg],
                           ret = None\<rparr>
                     else \<lparr>fetches = [export_url], ui = [], ret = Some df\<rparr>)))"

text \<open>
  The decorator \<open>@st.cache_data(ttl=600)\<close>. The cache maps the argument of the call to
  the time the entry was stored, the messages the call showed and the value it
  returned. An entry is used while it is younger than 600 seconds: the time of a call is
  a parameter, in seconds. On a hit the body does not run, the stored messages are shown
  again and the stored value is returned; otherwise the body runs and its result is
  stored.
\<close>

type_synonym load_cache = "string \<rightharpoonup> (nat \<times> ui_msg list \<times> sheet option)"

definition ttl :: nat where
  "ttl = 600"

definition cached_load_data_from_gdrive ::
  "load_cache \<Rightarrow> nat \<Rightarrow> excel_source \<Rightarrow> string \<Rightarrow> load_cache \<times> load_output" where
  "cached_load_data_from_gdrive cache now read_excel url =
     (let miss = (let out = load_data_from_gdrive read_excel url
                  in (cache(url \<mapsto> (now, ui out, ret out)), out))
      in case cache url of
           None \<Rightarrow> miss
         | Some (stored, msgs, val) \<Rightarrow>
             if now < stored + ttl
             then (cache, \<lparr>fetches = [], ui = msgs, ret = val\<rparr>)
             else miss)"

section \<open>The load button\<close>

text \<open>\<open>len(data)\<close>: the number of rows of the sheet.\<close>

definition len_df :: "sheet \<Rightarrow> nat" where
  "len_df df = (case df of [] \<Rightarrow> 0 | (name, col) # rest \<Rightarrow> length col)"

text \<open>What a click on the button leaves behind: the cache, the fetches made, the
  messages shown and the session.\<close>

record click_result =
  cache_after :: load_cache
  fetched :: "string list"
  shown :: "ui_msg list"
  session_after :: session_state

definition carica_button ::
  "load_cache \<Rightarrow> nat \<Rightarrow> excel_source \<Rightarrow> string \<Rightarrow> session_state \<Rightarrow> click_result" where
  "carica_button cache now read_excel gdrive_url st =
     (if gdrive_url \<noteq> []
      then
        (case cached_load_data_from_gdrive cache now read_excel gdrive_url of
           (cache', out) \<Rightarrow>
             (case ret out of
                Some data \<Rightarrow>
                  \<lparr>cache_after = cache', fetched = fetches out,
                   shown = ui out @
                     [St_success (''Caricati con successo '' @ str_nat (len_df data)
                                  @ '' imprevisti!'')],
                   session_after = st\<lparr>imprevisti_df := Some (Some data)\<rparr>\<rparr>
              | None \<Rightarrow>
                  \<lparr>cache_after = cache', fetched = fetches out, shown = ui out,
                   session_after = st\<lparr>imprevisti_df := Some None\<rparr>\<rparr>))
      else
        \<lparr>cache_after = cache, fetched = [],
         shown = [St_warning ''Per favore, inserisci un URL valido.''],
         session_after = st\<rparr>)"

section \<open>sync_team1 and sync_team2\<close>

text \<open>
  \<open>df.loc[row, column] = value\<close>, as a change of the rows labelled \<open>row\<close>. When no row
  has that label, pandas appends one with that label, the assigned column set and the
  other columns missing: \<open>fresh\<close> is that row.
\<close>

definition loc_set ::
  "nat \<Rightarrow> (factor_row \<Rightarrow> factor_row) \<Rightarrow> factor_row \<Rightarrow> team_df \<Rightarrow> team_df" where
  "loc_set row upd fresh df =
     (if row \<in> set (map fst df)
      then map (\<lambda>(l, r). if l = row then (l, upd r) else (l, r)) df
      else df @ [(row, fresh)])"

definition set_Valore :: "nat \<Rightarrow> int option \<Rightarrow> team_df \<Rightarrow> team_df" where
  "set_Valore row v df =
     loc_set row (\<lambda>r. r\<lparr>Valore := v\<rparr>) \<lparr>Fattore = None, Valore = v, Barra = None\<rparr> df"

definition set_Barra :: "nat \<Rightarrow> int option \<Rightarrow> team_df \<Rightarrow> team_df" where
  "set_Barra row v df =
     loc_set row (\<lambda>r. r\<lparr>Barra := v\<rparr>) \<lparr>Fattore = None, Valore = None, Barra = v\<rparr> df"

text \<open>
  The entry \<open>edited_rows\<close> of an editor's state: for each edited row its position and
  the new content of its \<open>Valore\<close> cell (\<open>None\<close> for a cell that was emptied), in the
  order of the dict. \<open>Valore\<close> is the only column the editor lets the user change.
\<close>

type_synonym edits = "(nat \<times> int option) list"

text \<open>The loop of the two callbacks, on one table.\<close>

fun apply_edits :: "edits \<Rightarrow> team_df \<Rightarrow> team_df" where
  "apply_edits [] df = df"
| "apply_edits ((row, v) # rest) df = apply_edits rest (set_Barra row v (set_Valore row v df))"

text \<open>Reading a key that is absent from \<open>st.session_state\<close> raises \<open>AttributeError\<close>;
  the exception is carried with the name of the key.\<close>

definition attribute_error :: "string \<Rightarrow> py_exn" where
  "attribute_error key = PyExn ''AttributeError'' key"

text \<open>The callbacks take the editor's \<open>edited_rows\<close> entry, \<open>None\<close> when the editor's
  state has no such entry (\<open>.get('edited_rows', {})\<close>).\<close>

definition sync_team1 :: "edits option \<Rightarrow> session_state \<Rightarrow> py_exn + session_state" where
  "sync_team1 editor_team1 st =
     (let edited_dict = (case editor_team1 of None \<Rightarrow> [] | Some d \<Rightarrow> d)
      in if edited_dict = [] then Inr st
         else (case team1_df st of
                 None \<Rightarrow> Inl (attribute_error ''team1_df'')
               | Some df \<Rightarrow> Inr (st\<lparr>team1_df := Some (apply_edits edited_dict df)\<rparr>)))"

definition sync_team2 :: "edits option \<Rightarrow> session_state \<Rightarrow> py_exn + session_state" where
  "sync_team2 editor_team2 st =
     (let edited_dict = (case editor_team2 of None \<Rightarrow> [] | Some d \<Rightarrow> d)
      in if edited_dict = [] then Inr st
         else (case team2_df st of
                 None \<Rightarrow> Inl (attribute_error ''team2_df'')
               | Some df \<Rightarrow> Inr (st\<lparr>team2_df := Some (apply_edits edited_dict df)\<rparr>)))"

section \<open>The game panel\<close>

text \<open>\<open>(df['Valore'] <= 0).any()\<close>: a missing value compares false.\<close>

definition has_critical_factor :: "team_df \<Rightarrow> bool" where
  "has_critical_factor df =
     list_ex (\<lambda>(l, r). case Valore r of None \<Rightarrow> False | Some v \<Rightarrow> v \<le> 0) df"

definition skull :: string where
  "skull = [CHR 0xE2, CHR 0x98, CHR 0xA0, CHR 0xEF, CHR 0xB8, CHR 0x8F]"

definition team1_lost_msg :: string where
  "team1_lost_msg =
     skull @ '' GIOCO FINITO! La Squadra 1 ha esaurito completamente un fattore! '' @ skull"

definition team2_lost_msg :: string where
  "team2_lost_msg =
     skull @ '' GIOCO FINITO! La Squadra 2 ha esaurito completamente un fattore! '' @ skull"

text \<open>The two tests of the game-over section: the messages shown and the value of
  \<open>game_over\<close> after them.\<close>

definition game_over_check :: "team_df \<Rightarrow> team_df \<Rightarrow> ui_msg list \<times> bool" where
  "game_over_check t1 t2 =
     (let (shown1, game_over1) =
            (if has_critical_factor t1 then ([St_error team1_lost_msg, St_balloons], True)
             else ([], False))
      in if has_critical_factor t2
         then (shown1 @ [St_error team2_lost_msg, St_balloons], True)
         else (shown1, game_over1))"

text \<open>\<open>df['imprevisto'].dropna().tolist()\<close>: the cells of the column that are not
  missing, in order, as they are.\<close>

definition event_list :: "sheet \<Rightarrow> py_exn + cell list" where
  "event_list df =
     (case map_of df ''imprevisto'' of
        None \<Rightarrow> Inl (PyExn ''KeyError'' ([CHR 0x27] @ ''imprevisto'' @ [CHR 0x27]))
      | Some col \<Rightarrow> Inr (filter (\<lambda>c. c \<noteq> Null) col))"

text \<open>\<open>event_list[selected_event - 1]\<close>.\<close>

definition chosen_event :: "'a list \<Rightarrow> int \<Rightarrow> py_exn + 'a" where
  "chosen_event events selected_event = py_index events (selected_event - 1)"

definition no_events_msg :: string where
  "no_events_msg =
     ''Nessun imprevisto valido trovato nella colonna 'imprevisto' del file Excel.''"

definition drawn_msg :: "cell \<Rightarrow> string" where
  "drawn_msg ev = ''**Imprevisto Pescato:**'' @ [CHR 0x0A, CHR 0x0A] @ '' '' @ py_str ev"

definition game_ended_msg :: string where
  "game_ended_msg =
     ''Il gioco '' @ [CHR 0xC3, CHR 0xA8]
       @ '' terminato. Per ricominciare, ricarica la pagina (F5).''"

definition start_hint_msg :: string where
  "start_hint_msg =
     ''Inserisci l'URL del tuo Google Sheet e clicca 'Carica' per iniziare.''"

text \<open>
  One run of the part of the script after the load button, with the number chosen in the
  number input: the session after the run, the messages shown, and the exception that
  ended the run, if one did. Titles, the two editors and the number input itself are
  left out; \<open>st.stop()\<close> ends the run after its warning.
\<close>

definition game_panel ::
  "session_state \<Rightarrow> int \<Rightarrow> session_state \<times> ui_msg list \<times> py_exn option" where
  "game_panel st selected_event =
     (case imprevisti_df st of
        None \<Rightarrow> (st, [], Some (attribute_error ''imprevisti_df''))
      | Some None \<Rightarrow> (st, [St_info start_hint_msg], None)
      | Some (Some df) \<Rightarrow>
          (case team1_df st of
             None \<Rightarrow> (st, [], Some (attribute_error ''team1_df''))
           | Some t1 \<Rightarrow>
               (case team2_df st of
                  None \<Rightarrow> (st, [], Some (attribute_error ''team2_df''))
                | Some t2 \<Rightarrow>
                    (case game_over_check t1 t2 of
                       (msgs, game_over) \<Rightarrow>
                         (case event_list df of
                            Inl e \<Rightarrow> (st, msgs, Some e)
                          | Inr events \<Rightarrow>
                              if events = []
                              then (st, msgs @ [St_warning no_events_msg], None)
                              else
                                (case chosen_event events selected_event of
                                   Inl e \<Rightarrow> (st, msgs, Some e)
                                 | Inr ev \<Rightarrow>
                                     (st,
                                      msgs @ [St_warning (drawn_msg ev)]
                                        @ (if game_over then [St_warning game_ended_msg]
                                           else []),
                                      None)))))))"

section \<open>Predicates used to state the properties\<close>

text \<open>
  Following the spec's words (\<open>/d/<id>/\<close> in the path): somewhere in the URL there is
  \<open>/d/\<close>, then an identifier of at least one character with no \<open>/\<close> in it, then \<open>/\<close>.
\<close>

fun spec_has_id_segment :: "string \<Rightarrow> bool" where
  "spec_has_id_segment [] = False"
| "spec_has_id_segment (c # cs) =
     ((take 3 (c # cs) = ''/d/''
       \<and> takeWhile (\<lambda>x. x \<noteq> CHR ''/'') (drop 3 (c # cs)) \<noteq> []
       \<and> dropWhile (\<lambda>x. x \<noteq> CHR ''/'') (drop 3 (c # cs)) \<noteq> [])
      \<or> spec_has_id_segment cs)"

text \<open>A cell that holds a text.\<close>

fun is_text :: "cell \<Rightarrow> bool" where
  "is_text (Text s) = True"
| "is_text c = False"

text \<open>The cache holds an entry for the URL that is still within its time-to-live at
  the given time.\<close>

definition fresh_at :: "load_cache \<Rightarrow> string \<Rightarrow> nat \<Rightarrow> bool" where
  "fresh_at cache url now =
     (case cache url of None \<Rightarrow> False | Some (stored, msgs, val) \<Rightarrow> now < stored + ttl)"

section \<open>Sample inputs\<close>

text \<open>Three sheets: one with three events, one whose column mixes a text, an empty
  cell and a number, and one without the column \<open>imprevisto\<close>.\<close>

definition sample_sheet :: sheet where
  "sample_sheet = [(''imprevisto'', [Text ''flood'', Text ''riot'', Text ''plague''])]"

definition mixed_sheet :: sheet where
  "mixed_sheet = [(''imprevisto'', [Text ''flood'', Null, Number 7])]"

definition other_sheet :: sheet where
  "other_sheet = [(''evento'', [Text ''flood''])]"

text \<open>Sources that answer every request with one of these sheets, and one whose every
  request ends in an exception.\<close>

definition sample_source :: excel_source where
  "sample_source u = Inr sample_sheet"

definition mixed_source :: excel_source where
  "mixed_source u = Inr mixed_sheet"

definition other_source :: excel_source where
  "other_source u = Inr other_sheet"

definition failing_source :: excel_source where
  "failing_source u = Inl (PyExn ''IndexError'' ''list index out of range'')"

text \<open>A session in which a catalog has been loaded.\<close>

definition loaded_session :: session_state where
  "loaded_session =
     \<lparr>team1_df = Some default_df, team2_df = Some default_df,
      imprevisti_df = Some (Some sample_sheet)\<rparr>"

text \<open>A session that holds only the first team's table, already edited.\<close>

definition half_session :: session_state where
  "half_session =
     \<lparr>team1_df = Some (apply_edits [(2, Some 0)] default_df), team2_df = None,
      imprevisti_df = None\<rparr>"

section \<open>Properties of initialize_state\<close>

lemma length_default_df: "length default_df = 8"
  by (simp add: default_df_def factor_names_def)

lemma default_df_values:
  "(l, r) \<in> set default_df \<Longrightarrow> Valore r = Some 100 \<and> Barra r = Some 100"
  by (auto simp: default_df_def)

text \<open>
  Claim C10. On a session with no key, \<open>initialize_state\<close> creates the two team tables,
  each of exactly 8 rows with \<open>Valore = Barra = 100\<close>, and an absent catalog. On any
  session, each key is handled on its own: a key that is not yet present is created (a
  team table as the fresh table, the catalog as \<open>None\<close>), whatever the other keys are, and
  a key already present keeps its value. Running it twice is the same as running it once.
\<close>

theorem initialize_state_idempotent_preserving:
  "initialize_state empty_session =
     \<lparr>team1_df = Some default_df, team2_df = Some default_df, imprevisti_df = Some None\<rparr>
   \<and> length default_df = 8
   \<and> list_all (\<lambda>(l, r). Valore r = Some 100 \<and> Barra r = Some 100) default_df
   \<and> (team1_df st = None \<longrightarrow> team1_df (initialize_state st) = Some default_df)
   \<and> (team2_df st = None \<longrightarrow> team2_df (initialize_state st) = Some default_df)
   \<and> (imprevisti_df st = None \<longrightarrow> imprevisti_df (initialize_state st) = Some None)
   \<and> (team1_df st \<noteq> None \<longrightarrow> team1_df (initialize_state st) = team1_df st)
   \<and> (team2_df st \<noteq> None \<longrightarrow> team2_df (initialize_state st) = team2_df st)
   \<and> (imprevisti_df st \<noteq> None \<longrightarrow> imprevisti_df (initialize_state st) = imprevisti_df st)
   \<and> initialize_state (initialize_state st) = initialize_state st"
proof -
  have vals: "list_all (\<lambda>(l, r). Valore r = Some 100 \<and> Barra r = Some 100) default_df"
    unfolding list_all_iff using default_df_values by auto
  have fresh: "initialize_state empty_session =
     \<lparr>team1_df = Some default_df, team2_df = Some default_df, imprevisti_df = Some None\<rparr>"
    by (simp add: initialize_state_def empty_session_def)
  have made1: "team1_df st = None \<longrightarrow> team1_df (initialize_state st) = Some default_df"
    by (simp add: initialize_state_def Let_def)
  have made2: "team2_df st = None \<longrightarrow> team2_df (initialize_state st) = Some default_df"
    by (simp add: initialize_state_def Let_def)
  have made3: "imprevisti_df st = None \<longrightarrow> imprevisti_df (initialize_state st) = Some None"
    by (simp add: initialize_state_def Let_def)
  have kept1: "team1_df st \<noteq> None \<longrightarrow> team1_df (initialize_state st) = team1_df st"
    by (simp add: initialize_state_def Let_def)
  have kept2: "team2_df st \<noteq> None \<longrightarrow> team2_df (initialize_state st) = team2_df st"
    by (simp add: initialize_state_def Let_def)
  have kept3: "imprevisti_df st \<noteq> None \<longrightarrow>
      imprevisti_df (initialize_state st) = imprevisti_df st"
    by (simp add: initialize_state_def Let_def)
  have twice: "initialize_state (initialize_state st) = initialize_state st"
    by (simp add: initialize_state_def Let_def)
  from fresh length_default_df vals made1 made2 made3 kept1 kept2 kept3 twice
  show ?thesis by (intro conjI)
qed

text \<open>
  Claim C10 on three sessions: one with no key, where the first table is created; one
  that holds only the first team's edited table, where that table is kept and the two
  missing keys are created; and one in which every key is present.
\<close>

theorem initialize_state_idempotent_preserving_witness:
  "team1_df empty_session = None
   \<and> team1_df (initialize_state empty_session) = Some default_df
   \<and> team1_df half_session \<noteq> None
   \<and> team1_df (initialize_state half_session)
       = Some (apply_edits [(2, Some 0)] default_df)
   \<and> team2_df half_session = None
   \<and> team2_df (initialize_state half_session) = Some default_df
   \<and> imprevisti_df half_session = None
   \<and> imprevisti_df (initialize_state half_session) = Some None
   \<and> team2_df loaded_session \<noteq> None
   \<and> team2_df (initialize_state loaded_session) = Some default_df
   \<and> imprevisti_df loaded_session \<noteq> None
   \<and> imprevisti_df (initialize_state loaded_session) = Some (Some sample_sheet)"
proof -
  have e1: "team1_df empty_session = None" by (simp add: empty_session_def)
  have h1: "team1_df half_session = Some (apply_edits [(2, Some 0)] default_df)"
    by (simp add: half_session_def)
  have h2: "team2_df half_session = None" by (simp add: half_session_def)
  have h3: "imprevisti_df half_session = None" by (simp add: half_session_def)
  have l2: "team2_df loaded_session = Some default_df" by (simp add: loaded_session_def)
  have l3: "imprevisti_df loaded_session = Some (Some sample_sheet)"
    by (simp add: loaded_session_def)
  have c1: "team1_df (initialize_state empty_session) = Some default_df"
    using e1 initialize_state_idempotent_preserving [of empty_session] by blast
  have c2: "team1_df (initialize_state half_session)
              = Some (apply_edits [(2, Some 0)] default_df)"
    using h1 initialize_state_idempotent_preserving [of half_session] by simp
  have c3: "team2_df (initialize_state half_session) = Some default_df"
    using h2 initialize_state_idempotent_preserving [of half_session] by blast
  have c4: "imprevisti_df (initialize_state half_session) = Some None"
    using h3 initialize_state_idempotent_preserving [of half_session] by blast
  have c5: "team2_df (initialize_state loaded_session) = Some default_df"
    using l2 initialize_state_idempotent_preserving [of loaded_session] by simp
  have c6: "imprevisti_df (initialize_state loaded_session) = Some (Some sample_sheet)"
    using l3 initialize_state_idempotent_preserving [of loaded_session] by simp
  from e1 h1 h2 h3 l2 l3 c1 c2 c3 c4 c5 c6 show ?thesis by simp
qed

section \<open>Facts about the string and list operations\<close>

lemmas load_defs = load_data_from_gdrive_def file_id_of_def py_index_def export_url_of_def
  except_clause_def index_error_def

lemma py_split_nonempty: "py_split sep s \<noteq> []"
  by (induction sep s rule: py_split.induct) (auto split: list.splits)

text \<open>A text is split in one piece exactly when the separator does not occur in it.\<close>

lemma py_split_single:
  "sep \<noteq> [] \<Longrightarrow> (length (py_split sep s) = 1) = (\<not> is_substr sep s)"
  by (induction sep s rule: py_split.induct) (auto split: list.splits simp: py_split_nonempty)



lemma file_id_of_no_marker:
  "\<not> is_substr ''/d/'' url \<Longrightarrow> file_id_of url = Inl index_error"
  using py_split_single [of "''/d/''" url]
  by (auto simp: file_id_of_def py_index_def Let_def)


text \<open>A URL with a \<open>/d/<id>/\<close> segment contains \<open>/d/\<close>: the URLs without \<open>/d/\<close> are
  among those that lack the segment.\<close>

lemma spec_has_id_segment_marker: "spec_has_id_segment url \<Longrightarrow> is_substr ''/d/'' url"
  by (induction url) (auto simp: numeral_2_eq_2)

lemma msgs_distinct:
  "invalid_url_msg \<noteq> missing_column_msg"
  "invalid_url_msg \<noteq> ''Errore nel caricamento o lettura del file: '' @ m"
  "missing_column_msg \<noteq> ''Errore nel caricamento o lettura del file: '' @ m"
  by (simp_all add: invalid_url_msg_def missing_column_msg_def)

lemma loaded_has_column:
  "ret (load_data_from_gdrive read_excel url) = Some df \<Longrightarrow> ''imprevisto'' \<in> set (map fst df)"
  by (auto simp: load_data_from_gdrive_def except_clause_def Let_def split: sum.splits if_splits)

lemma length_dropna: "length (filter (\<lambda>c. c \<noteq> Null) col) = length col - count_list col Null"
  by (induction col) (auto simp: Suc_diff_le count_le_length)

section \<open>The load button and the stored catalog\<close>

text \<open>
  Claim C1, as stated, fails. The session holds a loaded catalog; a click with a URL that
  has no host marker makes the load fail, and the button then stores \<open>None\<close> in place of
  the catalog.
\<close>

theorem failed_load_counterexample:
  "imprevisti_df loaded_session = Some (Some sample_sheet)
   \<and> ret (load_data_from_gdrive sample_source ''https://example.com/not-google/doc'') = None
   \<and> imprevisti_df (session_after
        (carica_button Map.empty 0 sample_source ''https://example.com/not-google/doc''
           loaded_session)) = Some None"
  by (simp add: loaded_session_def load_data_from_gdrive_def carica_button_def
       cached_load_data_from_gdrive_def)

text \<open>
  Claim C1, amended. A click with an empty URL leaves the session as it was. A click with
  a URL that is not empty either succeeds, and the stored catalog becomes the loaded
  sheet, or fails, and the stored catalog is reset to \<open>None\<close> whatever it was before. The
  two team tables are never touched.
\<close>

theorem load_button_replaces_or_resets:
  "(gdrive_url = [] \<longrightarrow>
      session_after (carica_button cache now read_excel gdrive_url st) = st)
   \<and> (gdrive_url \<noteq> []
        \<and> ret (snd (cached_load_data_from_gdrive cache now read_excel gdrive_url)) = Some data
      \<longrightarrow> session_after (carica_button cache now read_excel gdrive_url st)
            = st\<lparr>imprevisti_df := Some (Some data)\<rparr>)
   \<and> (gdrive_url \<noteq> []
        \<and> ret (snd (cached_load_data_from_gdrive cache now read_excel gdrive_url)) = None
      \<longrightarrow> session_after (carica_button cache now read_excel gdrive_url st)
            = st\<lparr>imprevisti_df := Some None\<rparr>)
   \<and> team1_df (session_after (carica_button cache now read_excel gdrive_url st)) = team1_df st
   \<and> team2_df (session_after (carica_button cache now read_excel gdrive_url st)) = team2_df st"
  by (auto simp: carica_button_def split: prod.splits option.splits)

text \<open>The amended claim C1 on three clicks: an empty URL, a load that succeeds and a
  load that fails.\<close>

theorem load_button_replaces_or_resets_witness:
  "session_after (carica_button Map.empty 0 sample_source [] loaded_session) = loaded_session
   \<and> ret (snd (cached_load_data_from_gdrive Map.empty 0 mixed_source
                  ''https://docs.google.com/spreadsheets/d/ABC/edit'')) = Some mixed_sheet
   \<and> session_after (carica_button Map.empty 0 mixed_source
        ''https://docs.google.com/spreadsheets/d/ABC/edit'' loaded_session)
       = loaded_session\<lparr>imprevisti_df := Some (Some mixed_sheet)\<rparr>
   \<and> ret (snd (cached_load_data_from_gdrive Map.empty 0 failing_source
                  ''https://docs.google.com/spreadsheets/d/ABC/edit'')) = None
   \<and> session_after (carica_button Map.empty 0 failing_source
        ''https://docs.google.com/spreadsheets/d/ABC/edit'' loaded_session)
       = loaded_session\<lparr>imprevisti_df := Some None\<rparr>"
proof -
  have h1: "ret (snd (cached_load_data_from_gdrive Map.empty 0 mixed_source
                  ''https://docs.google.com/spreadsheets/d/ABC/edit'')) = Some mixed_sheet"
    by (simp add: cached_load_data_from_gdrive_def load_defs mixed_source_def mixed_sheet_def)
  have h2: "ret (snd (cached_load_data_from_gdrive Map.empty 0 failing_source
                  ''https://docs.google.com/spreadsheets/d/ABC/edit'')) = None"
    by (simp add: cached_load_data_from_gdrive_def load_defs failing_source_def)
  have h3: "''https://docs.google.com/spreadsheets/d/ABC/edit'' \<noteq> []" by simp
  show ?thesis
    using h1 h2 h3
      load_button_replaces_or_resets [where gdrive_url = "[]" and st = loaded_session
        and cache = Map.empty and now = 0 and read_excel = sample_source]
      load_button_replaces_or_resets
        [where gdrive_url = "''https://docs.google.com/spreadsheets/d/ABC/edit''"
          and st = loaded_session and cache = Map.empty and now = 0
          and read_excel = mixed_source and data = mixed_sheet]
      load_button_replaces_or_resets
        [where gdrive_url = "''https://docs.google.com/spreadsheets/d/ABC/edit''"
          and st = loaded_session and cache = Map.empty and now = 0
          and read_excel = failing_source]
    by blast
qed

section \<open>How a failed load shows\<close>

text \<open>
  Claim C2, as stated, fails. A URL with the host marker and no \<open>/d/\<close> (a malformed
  path) and a well-formed URL whose fetch ends in an exception with the same text give
  the caller the same returned value and the same messages: the two kinds of failure
  cannot be told apart.
\<close>

theorem error_kinds_counterexample:
  "is_substr ''google.com'' ''https://docs.google.com/spreadsheets''
   \<and> \<not> is_substr ''/d/'' ''https://docs.google.com/spreadsheets''
   \<and> file_id_of ''https://docs.google.com/spreadsheets/d/ABC/edit'' = Inr ''ABC''
   \<and> failing_source (export_url_of ''ABC'')
       = Inl (PyExn ''IndexError'' ''list index out of range'')
   \<and> ret (load_data_from_gdrive failing_source ''https://docs.google.com/spreadsheets'')
       = ret (load_data_from_gdrive failing_source
                ''https://docs.google.com/spreadsheets/d/ABC/edit'')
   \<and> ui (load_data_from_gdrive failing_source ''https://docs.google.com/spreadsheets'')
       = ui (load_data_from_gdrive failing_source
               ''https://docs.google.com/spreadsheets/d/ABC/edit'')"
  by (simp add: load_data_from_gdrive_def file_id_of_def py_index_def export_url_of_def
       failing_source_def except_clause_def index_error_def)

text \<open>
  Claim C2, amended. Every failed load returns \<open>None\<close> and shows one of three forms of
  message: the invalid-URL message when the host marker is missing; the missing-column
  message when the sheet has no column \<open>imprevisto\<close>; and, both for a URL without \<open>/d/\<close>
  and for a fetch that raises, the message \<open>Errore nel caricamento o lettura del file:\<close>
  followed by the text of the exception, and then the sharing hint. The three forms are
  different texts.
\<close>

theorem load_failure_messages:
  "(ret (load_data_from_gdrive read_excel url) = None \<longrightarrow>
      ui (load_data_from_gdrive read_excel url) = [St_error invalid_url_msg]
      \<or> ui (load_data_from_gdrive read_excel url) = [St_error missing_column_msg]
      \<or> (\<exists>e. ui (load_data_from_gdrive read_excel url) =
               [St_error (''Errore nel caricamento o lettura del file: '' @ exn_str e),
                St_info sharing_hint_msg]))
   \<and> (\<not> is_substr ''google.com'' url \<longrightarrow>
         ui (load_data_from_gdrive read_excel url) = [St_error invalid_url_msg])
   \<and> (is_substr ''google.com'' url \<and> \<not> is_substr ''/d/'' url \<longrightarrow>
         ui (load_data_from_gdrive read_excel url) =
           [St_error ''Errore nel caricamento o lettura del file: list index out of range'',
            St_info sharing_hint_msg])
   \<and> (is_substr ''google.com'' url \<and> file_id_of url = Inr file_id
        \<and> read_excel (export_url_of file_id) = Inl e \<longrightarrow>
         ui (load_data_from_gdrive read_excel url) =
           [St_error (''Errore nel caricamento o lettura del file: '' @ exn_str e),
            St_info sharing_hint_msg])
   \<and> (is_substr ''google.com'' url \<and> file_id_of url = Inr file_id
        \<and> read_excel (export_url_of file_id) = Inr df
        \<and> ''imprevisto'' \<notin> set (map fst df) \<longrightarrow>
         ui (load_data_from_gdrive read_excel url) = [St_error missing_column_msg])
   \<and> invalid_url_msg \<noteq> missing_column_msg
   \<and> invalid_url_msg \<noteq> ''Errore nel caricamento o lettura del file: '' @ m
   \<and> missing_column_msg \<noteq> ''Errore nel caricamento o lettura del file: '' @ m"
proof -
  let ?out = "load_data_from_gdrive read_excel url"
  have a: "ret ?out = None \<longrightarrow>
      ui ?out = [St_error invalid_url_msg]
      \<or> ui ?out = [St_error missing_column_msg]
      \<or> (\<exists>e. ui ?out =
               [St_error (''Errore nel caricamento o lettura del file: '' @ exn_str e),
                St_info sharing_hint_msg])"
    by (auto simp: load_data_from_gdrive_def except_clause_def Let_def split: sum.splits)
  have b: "\<not> is_substr ''google.com'' url \<longrightarrow> ui ?out = [St_error invalid_url_msg]"
    by (simp add: load_data_from_gdrive_def)
  have c: "is_substr ''google.com'' url \<and> \<not> is_substr ''/d/'' url \<longrightarrow>
         ui ?out =
           [St_error ''Errore nel caricamento o lettura del file: list index out of range'',
            St_info sharing_hint_msg]"
    by (simp add: load_data_from_gdrive_def file_id_of_no_marker except_clause_def
        index_error_def)
  have d: "is_substr ''google.com'' url \<and> file_id_of url = Inr file_id
        \<and> read_excel (export_url_of file_id) = Inl e \<longrightarrow>
         ui ?out =
           [St_error (''Errore nel caricamento o lettura del file: '' @ exn_str e),
            St_info sharing_hint_msg]"
    by (simp add: load_data_from_gdrive_def except_clause_def Let_def)
  have e: "is_substr ''google.com'' url \<and> file_id_of url = Inr file_id
        \<and> read_excel (export_url_of file_id) = Inr df
        \<and> ''imprevisto'' \<notin> set (map fst df) \<longrightarrow>
         ui ?out = [St_error missing_column_msg]"
    by (simp add: load_data_from_gdrive_def Let_def)
  from a b c d e msgs_distinct show ?thesis by blast
qed

text \<open>The amended claim C2 on one input for each way of failing.\<close>

theorem load_failure_messages_witness:
  "\<not> is_substr ''google.com'' ''https://example.com/not-google/doc''
   \<and> ret (load_data_from_gdrive sample_source ''https://example.com/not-google/doc'') = None
   \<and> ui (load_data_from_gdrive sample_source ''https://example.com/not-google/doc'')
       = [St_error invalid_url_msg]
   \<and> is_substr ''google.com'' ''https://docs.google.com/spreadsheets''
   \<and> \<not> is_substr ''/d/'' ''https://docs.google.com/spreadsheets''
   \<and> ui (load_data_from_gdrive sample_source ''https://docs.google.com/spreadsheets'')
       = [St_error ''Errore nel caricamento o lettura del file: list index out of range'',
          St_info sharing_hint_msg]
   \<and> is_substr ''google.com'' ''https://docs.google.com/spreadsheets/d/ABC/edit''
   \<and> file_id_of ''https://docs.google.com/spreadsheets/d/ABC/edit'' = Inr ''ABC''
   \<and> failing_source (export_url_of ''ABC'') = Inl index_error
   \<and> ui (load_data_from_gdrive failing_source
            ''https://docs.google.com/spreadsheets/d/ABC/edit'')
       = [St_error (''Errore nel caricamento o lettura del file: '' @ exn_str index_error),
          St_info sharing_hint_msg]
   \<and> other_source (export_url_of ''ABC'') = Inr other_sheet
   \<and> ''imprevisto'' \<notin> set (map fst other_sheet)
   \<and> ui (load_data_from_gdrive other_source
            ''https://docs.google.com/spreadsheets/d/ABC/edit'')
       = [St_error missing_column_msg]"
proof -
  have h1: "\<not> is_substr ''google.com'' ''https://example.com/not-google/doc''" by simp
  have h1': "ret (load_data_from_gdrive sample_source ''https://example.com/not-google/doc'')
              = None"
    by (simp add: load_data_from_gdrive_def)
  have h2: "is_substr ''google.com'' ''https://docs.google.com/spreadsheets''" by simp
  have h2': "\<not> is_substr ''/d/'' ''https://docs.google.com/spreadsheets''" by simp
  have h3: "file_id_of ''https://docs.google.com/spreadsheets/d/ABC/edit'' = Inr ''ABC''"
    by (simp add: file_id_of_def py_index_def)
  have h4: "failing_source (export_url_of ''ABC'') = Inl index_error"
    by (simp add: failing_source_def index_error_def)
  have h5: "other_source (export_url_of ''ABC'') = Inr other_sheet"
    by (simp add: other_source_def)
  have h6: "''imprevisto'' \<notin> set (map fst other_sheet)" by (simp add: other_sheet_def)
  have h7: "is_substr ''google.com'' ''https://docs.google.com/spreadsheets/d/ABC/edit''"
    by simp
  have c1: "ui (load_data_from_gdrive sample_source ''https://example.com/not-google/doc'')
       = [St_error invalid_url_msg]"
    using h1 load_failure_messages [where url = "''https://example.com/not-google/doc''"
        and read_excel = sample_source]
    by blast
  have c2: "ui (load_data_from_gdrive sample_source ''https://docs.google.com/spreadsheets'')
       = [St_error ''Errore nel caricamento o lettura del file: list index out of range'',
          St_info sharing_hint_msg]"
    using h2 h2' load_failure_messages [where url = "''https://docs.google.com/spreadsheets''"
        and read_excel = sample_source]
    by blast
  have c3: "ui (load_data_from_gdrive failing_source
            ''https://docs.google.com/spreadsheets/d/ABC/edit'')
       = [St_error (''Errore nel caricamento o lettura del file: '' @ exn_str index_error),
          St_info sharing_hint_msg]"
    using h3 h4 h7
      load_failure_messages [where url = "''https://docs.google.com/spreadsheets/d/ABC/edit''"
        and read_excel = failing_source and file_id = "''ABC''" and e = index_error]
    by blast
  have c4: "ui (load_data_from_gdrive other_source
            ''https://docs.google.com/spreadsheets/d/ABC/edit'')
       = [St_error missing_column_msg]"
    using h3 h5 h6 h7
      load_failure_messages [where url = "''https://docs.google.com/spreadsheets/d/ABC/edit''"
        and read_excel = other_source and file_id = "''ABC''" and df = other_sheet]
    by blast
  from h1 h1' h2 h2' h3 h4 h5 h6 h7 c1 c2 c3 c4 show ?thesis by simp
qed

section \<open>URLs without a document identifier\<close>




section \<open>The event catalog\<close>

text \<open>
  Claim C4, as stated, fails. The loaded column holds a text, an empty cell and the
  number 7; the catalog keeps the number as a number, not as a text.
\<close>

theorem catalog_text_counterexample:
  "ret (load_data_from_gdrive mixed_source
          ''https://docs.google.com/spreadsheets/d/ABC/edit?usp=sharing'') = Some mixed_sheet
   \<and> event_list mixed_sheet = Inr [Text ''flood'', Number 7]
   \<and> \<not> list_all is_text [Text ''flood'', Number 7]"
  by (simp add: load_data_from_gdrive_def file_id_of_def py_index_def export_url_of_def
       mixed_source_def mixed_sheet_def event_list_def)

text \<open>
  Claim C4, amended. For every load that returns a sheet, the sheet has a column
  \<open>imprevisto\<close> and the event catalog is exactly the cells of that column that are not
  missing, top to bottom: its length is the number of cells minus the number of missing
  ones, it is a subsequence of the column, it holds every value of the column but the
  missing one, and each kept entry is the cell as it was read, so the catalog is all
  texts exactly when every cell of the column that is not missing is a text.
\<close>

theorem event_list_non_null_in_order:
  assumes "ret (load_data_from_gdrive read_excel url) = Some df"
  shows "\<exists>col. map_of df ''imprevisto'' = Some col
           \<and> event_list df = Inr (filter (\<lambda>c. c \<noteq> Null) col)
           \<and> length (filter (\<lambda>c. c \<noteq> Null) col) = length col - count_list col Null
           \<and> subseq (filter (\<lambda>c. c \<noteq> Null) col) col
           \<and> set (filter (\<lambda>c. c \<noteq> Null) col) = set col - {Null}
           \<and> (list_all is_text (filter (\<lambda>c. c \<noteq> Null) col)
                = (\<forall>c \<in> set col. c = Null \<or> is_text c))"
proof -
  from assms have "''imprevisto'' \<in> set (map fst df)" by (rule loaded_has_column)
  then obtain col where col: "map_of df ''imprevisto'' = Some col"
    by (metis map_of_eq_None_iff not_Some_eq set_map)
  have "list_all is_text (filter (\<lambda>c. c \<noteq> Null) col) = (\<forall>c \<in> set col. c = Null \<or> is_text c)"
    by (auto simp: list_all_iff)
  with col show ?thesis
    by (auto simp: event_list_def length_dropna)
qed

text \<open>The amended claim C4 on the sheet with a text, an empty cell and a number.\<close>

theorem event_list_non_null_in_order_witness:
  "ret (load_data_from_gdrive mixed_source
          ''https://docs.google.com/spreadsheets/d/ABC/edit'') = Some mixed_sheet
   \<and> (\<exists>col. map_of mixed_sheet ''imprevisto'' = Some col
           \<and> event_list mixed_sheet = Inr (filter (\<lambda>c. c \<noteq> Null) col)
           \<and> length (filter (\<lambda>c. c \<noteq> Null) col) = length col - count_list col Null)
   \<and> event_list mixed_sheet = Inr [Text ''flood'', Number 7]"
proof -
  have h: "ret (load_data_from_gdrive mixed_source
          ''https://docs.google.com/spreadsheets/d/ABC/edit'') = Some mixed_sheet"
    by (simp add: load_defs mixed_source_def mixed_sheet_def)
  have e: "event_list mixed_sheet = Inr [Text ''flood'', Number 7]"
    by (simp add: event_list_def mixed_sheet_def)
  from h e event_list_non_null_in_order [OF h] show ?thesis by blast
qed

section \<open>Edits of a team table\<close>

lemma map_of_map_upd_other:
  "l \<noteq> row \<Longrightarrow>
   map_of (map (\<lambda>(l, r). if l = row then (l, upd r) else (l, r)) df) l = map_of df l"
  by (induction df) auto

lemma map_of_loc_set_other:
  "l \<noteq> row \<Longrightarrow> map_of (loc_set row upd fresh df) l = map_of df l"
  by (auto simp: loc_set_def map_of_map_upd_other map_add_def split: option.splits)

lemma map_of_map_upd:
  "map_of (map (\<lambda>(l, r). if l = row then (l, upd r) else (l, r)) df) row
     = map_option upd (map_of df row)"
  by (induction df) auto

lemma map_of_loc_set_same:
  "map_of (loc_set row upd fresh df) row =
     Some (case map_of df row of None \<Rightarrow> fresh | Some r \<Rightarrow> upd r)"
proof (cases "row \<in> set (map fst df)")
  case True
  then obtain r where "map_of df row = Some r"
    by (metis map_of_eq_None_iff not_Some_eq set_map)
  with True show ?thesis by (simp add: loc_set_def map_of_map_upd)
next
  case False
  then have "map_of df row = None" by (simp add: map_of_eq_None_iff)
  with False show ?thesis by (simp add: loc_set_def map_add_def)
qed

text \<open>The two assignments of one turn of the loop, seen at the edited row and at any
  other row.\<close>

lemma edit_row_same:
  "map_of (set_Barra row v (set_Valore row v df)) row =
     Some (case map_of df row of
             None \<Rightarrow> \<lparr>Fattore = None, Valore = v, Barra = v\<rparr>
           | Some r \<Rightarrow> r\<lparr>Valore := v, Barra := v\<rparr>)"
  by (simp add: set_Barra_def set_Valore_def map_of_loc_set_same split: option.splits)

lemma edit_row_other:
  "l \<noteq> row \<Longrightarrow> map_of (set_Barra row v (set_Valore row v df)) l = map_of df l"
  by (simp add: set_Barra_def set_Valore_def map_of_loc_set_other)

lemma apply_edits_other:
  "l \<notin> fst ` set es \<Longrightarrow> map_of (apply_edits es df) l = map_of df l"
  by (induction es df rule: apply_edits.induct) (auto simp: edit_row_other)

lemma apply_edits_edited:
  "distinct (map fst es) \<Longrightarrow> (row, v) \<in> set es \<Longrightarrow>
   map_of (apply_edits es df) row =
     Some (case map_of df row of
             None \<Rightarrow> \<lparr>Fattore = None, Valore = v, Barra = v\<rparr>
           | Some r \<Rightarrow> r\<lparr>Valore := v, Barra := v\<rparr>)"
proof (induction es df rule: apply_edits.induct)
  case (1 df)
  then show ?case by simp
next
  case (2 row' v' rest df)
  show ?case
  proof (cases "row' = row")
    case True
    with "2.prems" have "v' = v" and "row \<notin> fst ` set rest"
      by (auto simp: image_iff)
    then show ?thesis using True by (simp add: apply_edits_other edit_row_same)
  next
    case False
    with "2.prems" have "(row, v) \<in> set rest" and "distinct (map fst rest)" by auto
    with "2.IH" False show ?thesis by (simp add: edit_row_other)
  qed
qed

text \<open>When the edited rows are rows of the table, no row is added and the labels stay
  as they were.\<close>

lemma loc_set_labels:
  "row \<in> set (map fst df) \<Longrightarrow> map fst (loc_set row upd fresh df) = map fst df"
  by (induction df) (auto simp: loc_set_def)

lemma edit_row_labels:
  assumes "row \<in> set (map fst df)"
  shows "map fst (set_Barra row v (set_Valore row v df)) = map fst df"
proof -
  have a: "map fst (set_Valore row v df) = map fst df"
    unfolding set_Valore_def using assms by (rule loc_set_labels)
  with assms have "row \<in> set (map fst (set_Valore row v df))" by simp
  then have "map fst (set_Barra row v (set_Valore row v df)) = map fst (set_Valore row v df)"
    unfolding set_Barra_def by (rule loc_set_labels)
  with a show ?thesis by simp
qed

lemma apply_edits_labels:
  "fst ` set es \<subseteq> set (map fst df) \<Longrightarrow> map fst (apply_edits es df) = map fst df"
proof (induction es df rule: apply_edits.induct)
  case (1 df)
  then show ?case by simp
next
  case (2 row v rest df)
  from "2.prems" have "row \<in> set (map fst df)" by simp
  then have l: "map fst (set_Barra row v (set_Valore row v df)) = map fst df"
    by (rule edit_row_labels)
  with "2.prems" have "fst ` set rest \<subseteq> set (map fst (set_Barra row v (set_Valore row v df)))"
    by simp
  then have "map fst (apply_edits rest (set_Barra row v (set_Valore row v df)))
               = map fst (set_Barra row v (set_Valore row v df))"
    by (rule "2.IH")
  with l show ?case by simp
qed

lemma default_df_row2:
  "map_of default_df 2 =
     Some \<lparr>Fattore = Some ([CHR 0xF0, CHR 0x9F, CHR 0x92, CHR 0xB0] @ '' Finanze''),
           Valore = Some 100, Barra = Some 100\<rparr>"
  by (simp add: default_df_def factor_names_def)

lemma edited_df_row2:
  "(2, \<lparr>Fattore = Some ([CHR 0xF0, CHR 0x9F, CHR 0x92, CHR 0xB0] @ '' Finanze''),
        Valore = Some 0, Barra = Some 0\<rparr>) \<in> set (apply_edits [(2, Some 0)] default_df)"
  by (simp add: default_df_def factor_names_def set_Barra_def set_Valore_def loc_set_def)

text \<open>
  Claim C5. In a session that holds the two team tables, for every dict of edits (each
  row at most once) whose values are integers from 0 to 100, each callback ends without
  an exception and leaves in its table, for every edited row, \<open>Valore\<close> and \<open>Barra\<close> both
  equal to the incoming value, with the row's \<open>Fattore\<close> kept; every row that is not in
  the edits is exactly as before; and when the edited rows are rows of the table, the
  table keeps its rows. The other team's table is not touched.
\<close>

theorem sync_keeps_bar_equal_to_value:
  assumes "team1_df st = Some t1" and "team2_df st = Some t2"
    and "distinct (map fst es)"
    and "\<forall>(row, v) \<in> set es. \<exists>n. v = Some n \<and> 0 \<le> n \<and> n \<le> 100"
  shows "sync_team1 (Some es) st = Inr (st\<lparr>team1_df := Some (apply_edits es t1)\<rparr>)
       \<and> sync_team2 (Some es) st = Inr (st\<lparr>team2_df := Some (apply_edits es t2)\<rparr>)
       \<and> (\<forall>df \<in> {t1, t2}.
            (\<forall>(row, v) \<in> set es.
               \<exists>r. map_of (apply_edits es df) row = Some r
                   \<and> Valore r = v \<and> Barra r = v \<and> Valore r = Barra r
                   \<and> (\<forall>r0. map_of df row = Some r0 \<longrightarrow> Fattore r = Fattore r0))
          \<and> (\<forall>l. l \<notin> fst ` set es \<longrightarrow> map_of (apply_edits es df) l = map_of df l)
          \<and> (fst ` set es \<subseteq> set (map fst df) \<longrightarrow>
               map fst (apply_edits es df) = map fst df))"
proof -
  have s1: "sync_team1 (Some es) st = Inr (st\<lparr>team1_df := Some (apply_edits es t1)\<rparr>)"
    using assms(1) by (cases es) (simp_all add: sync_team1_def)
  have s2: "sync_team2 (Some es) st = Inr (st\<lparr>team2_df := Some (apply_edits es t2)\<rparr>)"
    using assms(2) by (cases es) (simp_all add: sync_team2_def)
  have ed: "\<forall>(row, v) \<in> set es.
               \<exists>r. map_of (apply_edits es df) row = Some r
                   \<and> Valore r = v \<and> Barra r = v \<and> Valore r = Barra r
                   \<and> (\<forall>r0. map_of df row = Some r0 \<longrightarrow> Fattore r = Fattore r0)" for df
  proof clarify
    fix row v
    assume "(row, v) \<in> set es"
    from apply_edits_edited [OF assms(3) this, of df]
    show "\<exists>r. map_of (apply_edits es df) row = Some r
                \<and> Valore r = v \<and> Barra r = v \<and> Valore r = Barra r
                \<and> (\<forall>r0. map_of df row = Some r0 \<longrightarrow> Fattore r = Fattore r0)"
      by (auto split: option.splits)
  qed
  have ot: "\<forall>l. l \<notin> fst ` set es \<longrightarrow> map_of (apply_edits es df) l = map_of df l" for df
    by (simp add: apply_edits_other)
  have lb: "fst ` set es \<subseteq> set (map fst df) \<longrightarrow> map fst (apply_edits es df) = map fst df"
    for df
    using apply_edits_labels by blast
  have per: "(\<forall>(row, v) \<in> set es.
               \<exists>r. map_of (apply_edits es df) row = Some r
                   \<and> Valore r = v \<and> Barra r = v \<and> Valore r = Barra r
                   \<and> (\<forall>r0. map_of df row = Some r0 \<longrightarrow> Fattore r = Fattore r0))
          \<and> (\<forall>l. l \<notin> fst ` set es \<longrightarrow> map_of (apply_edits es df) l = map_of df l)
          \<and> (fst ` set es \<subseteq> set (map fst df) \<longrightarrow>
               map fst (apply_edits es df) = map fst df)" for df
    using ed [of df] ot [of df] lb [of df] by (intro conjI)
  have "\<forall>df \<in> {t1, t2}.
            (\<forall>(row, v) \<in> set es.
               \<exists>r. map_of (apply_edits es df) row = Some r
                   \<and> Valore r = v \<and> Barra r = v \<and> Valore r = Barra r
                   \<and> (\<forall>r0. map_of df row = Some r0 \<longrightarrow> Fattore r = Fattore r0))
          \<and> (\<forall>l. l \<notin> fst ` set es \<longrightarrow> map_of (apply_edits es df) l = map_of df l)
          \<and> (fst ` set es \<subseteq> set (map fst df) \<longrightarrow>
               map fst (apply_edits es df) = map fst df)"
    by (intro ballI per)
  with s1 s2 show ?thesis by (intro conjI)
qed

text \<open>Claim C5 on the fresh tables and the edit that sets row 2 to 0.\<close>

theorem sync_keeps_bar_equal_to_value_witness:
  "team1_df loaded_session = Some default_df
   \<and> team2_df loaded_session = Some default_df
   \<and> distinct (map fst [(2::nat, Some (0::int))])
   \<and> (\<exists>n. Some (0::int) = Some n \<and> 0 \<le> n \<and> n \<le> 100)
   \<and> sync_team1 (Some [(2, Some 0)]) loaded_session
       = Inr (loaded_session\<lparr>team1_df := Some (apply_edits [(2, Some 0)] default_df)\<rparr>)
   \<and> (\<exists>r. map_of (apply_edits [(2, Some 0)] default_df) 2 = Some r
          \<and> Valore r = Some 0 \<and> Barra r = Some 0
          \<and> Fattore r = Some ([CHR 0xF0, CHR 0x9F, CHR 0x92, CHR 0xB0] @ '' Finanze''))
   \<and> map_of (apply_edits [(2, Some 0)] default_df) 3 = map_of default_df 3"
proof -
  have h1: "team1_df loaded_session = Some default_df" by (simp add: loaded_session_def)
  have h2: "team2_df loaded_session = Some default_df" by (simp add: loaded_session_def)
  have h3: "distinct (map fst [(2::nat, Some (0::int))])" by simp
  have h4: "\<forall>(row, v) \<in> set [(2::nat, Some (0::int))]. \<exists>n. v = Some n \<and> 0 \<le> n \<and> n \<le> 100"
    by simp
  have h5: "\<exists>n. Some (0::int) = Some n \<and> 0 \<le> n \<and> n \<le> 100" by simp
  note t = sync_keeps_bar_equal_to_value [OF h1 h2 h3 h4]
  from t have c1: "sync_team1 (Some [(2, Some 0)]) loaded_session
       = Inr (loaded_session\<lparr>team1_df := Some (apply_edits [(2, Some 0)] default_df)\<rparr>)"
    by (rule conjunct1)
  from t have "\<exists>r. map_of (apply_edits [(2, Some 0)] default_df) 2 = Some r
          \<and> Valore r = Some 0 \<and> Barra r = Some 0
          \<and> (\<forall>r0. map_of default_df 2 = Some r0 \<longrightarrow> Fattore r = Fattore r0)"
    by auto
  then have c2: "\<exists>r. map_of (apply_edits [(2, Some 0)] default_df) 2 = Some r
          \<and> Valore r = Some 0 \<and> Barra r = Some 0
          \<and> Fattore r = Some ([CHR 0xF0, CHR 0x9F, CHR 0x92, CHR 0xB0] @ '' Finanze'')"
    using default_df_row2 by auto
  from t have c3: "map_of (apply_edits [(2, Some 0)] default_df) 3 = map_of default_df 3"
    by simp
  from h1 h2 h3 h5 c1 c2 c3 show ?thesis by (intro conjI)
qed

section \<open>The game-over test\<close>

lemma lost_msgs_differ: "team1_lost_msg \<noteq> team2_lost_msg"
  by (simp add: team1_lost_msg_def team2_lost_msg_def)

text \<open>
  Claim C6. \<open>has_critical_factor\<close> is true exactly when some row of the table has a
  \<open>Valore\<close> that is at most 0; it is false on the table that \<open>initialize_state\<close> creates;
  \<open>game_over\<close> is set exactly when it is true for team 1 or for team 2; and each team's
  message is shown exactly when it is true for that team.
\<close>

theorem critical_factor_iff:
  "has_critical_factor df = (\<exists>(l, r) \<in> set df. \<exists>v. Valore r = Some v \<and> v \<le> 0)
   \<and> \<not> has_critical_factor default_df
   \<and> snd (game_over_check t1 t2) = (has_critical_factor t1 \<or> has_critical_factor t2)
   \<and> (St_error team1_lost_msg \<in> set (fst (game_over_check t1 t2))) = has_critical_factor t1
   \<and> (St_error team2_lost_msg \<in> set (fst (game_over_check t1 t2))) = has_critical_factor t2"
proof -
  have a: "has_critical_factor df = (\<exists>(l, r) \<in> set df. \<exists>v. Valore r = Some v \<and> v \<le> 0)" for df
    by (induction df) (auto simp: has_critical_factor_def split: option.splits)
  have b: "\<not> has_critical_factor default_df"
    unfolding a using default_df_values by fastforce
  have c: "snd (game_over_check t1 t2) = (has_critical_factor t1 \<or> has_critical_factor t2)"
    by (simp add: game_over_check_def)
  have d: "(St_error team1_lost_msg \<in> set (fst (game_over_check t1 t2))) = has_critical_factor t1"
    using lost_msgs_differ by (auto simp: game_over_check_def)
  have e: "(St_error team2_lost_msg \<in> set (fst (game_over_check t1 t2))) = has_critical_factor t2"
    using lost_msgs_differ by (auto simp: game_over_check_def)
  from a b c d e show ?thesis by blast
qed

text \<open>Claim C6 on the fresh table after the edit that sets row 2 to 0.\<close>

theorem critical_factor_iff_witness:
  "(\<exists>(l, r) \<in> set (apply_edits [(2, Some 0)] default_df). \<exists>v. Valore r = Some v \<and> v \<le> 0)
   \<and> has_critical_factor (apply_edits [(2, Some 0)] default_df)
   \<and> \<not> has_critical_factor default_df
   \<and> snd (game_over_check (apply_edits [(2, Some 0)] default_df) default_df)"
proof -
  have h: "\<exists>(l, r) \<in> set (apply_edits [(2, Some 0)] default_df). \<exists>v. Valore r = Some v \<and> v \<le> 0"
    using edited_df_row2 by force
  note t = critical_factor_iff [of "apply_edits [(2, Some 0)] default_df"
      "apply_edits [(2, Some 0)] default_df" default_df]
  from t h have c1: "has_critical_factor (apply_edits [(2, Some 0)] default_df)" by blast
  from t have c2: "\<not> has_critical_factor default_df" by blast
  from t c1 have c3: "snd (game_over_check (apply_edits [(2, Some 0)] default_df) default_df)"
    by blast
  from h c1 c2 c3 show ?thesis by blast
qed

section \<open>Drawing an event\<close>

text \<open>
  Claim C7. For every catalog and every number \<open>i\<close> from 1 to the length of the catalog,
  the chosen event is the element at position \<open>i - 1\<close>; on the catalog \<open>flood\<close>, \<open>riot\<close>,
  \<open>plague\<close> the number 2 gives \<open>riot\<close>. A run of the game panel returns the session it was
  given, so the catalog is neither changed nor consumed and the same number gives the
  same event again; and with a loaded sheet, both tables present and such a number, the
  run ends without an exception and shows the chosen event.
\<close>

theorem draw_returns_indexed_event:
  "(1 \<le> i \<and> i \<le> int (length catalog) \<longrightarrow>
       chosen_event catalog i = Inr (catalog ! nat (i - 1)))
   \<and> chosen_event [''flood'', ''riot'', ''plague''] 2 = Inr ''riot''
   \<and> fst (game_panel st i) = st
   \<and> (imprevisti_df st = Some (Some df) \<and> team1_df st = Some t1 \<and> team2_df st = Some t2
        \<and> event_list df = Inr events \<and> 1 \<le> i \<and> i \<le> int (length events) \<longrightarrow>
       (\<exists>before after.
          game_panel st i =
            (st, before @ [St_warning (drawn_msg (events ! nat (i - 1)))] @ after, None)))"
proof -
  have a: "1 \<le> i \<and> i \<le> int (length catalog) \<longrightarrow>
       chosen_event catalog i = Inr (catalog ! nat (i - 1))" for catalog :: "'b list"
    by (auto simp: chosen_event_def py_index_def Let_def)
  have b: "chosen_event [''flood'', ''riot'', ''plague''] 2 = Inr ''riot''"
    by (simp add: chosen_event_def py_index_def)
  have c: "fst (game_panel st i) = st"
    by (simp add: game_panel_def split: option.splits prod.splits sum.splits)
  have d: "imprevisti_df st = Some (Some df) \<and> team1_df st = Some t1 \<and> team2_df st = Some t2
        \<and> event_list df = Inr events \<and> 1 \<le> i \<and> i \<le> int (length events) \<longrightarrow>
       (\<exists>before after.
          game_panel st i =
            (st, before @ [St_warning (drawn_msg (events ! nat (i - 1)))] @ after, None))"
  proof
    assume h: "imprevisti_df st = Some (Some df) \<and> team1_df st = Some t1
        \<and> team2_df st = Some t2
        \<and> event_list df = Inr events \<and> 1 \<le> i \<and> i \<le> int (length events)"
    then have ne: "events \<noteq> []" by auto
    obtain msgs over where g: "game_over_check t1 t2 = (msgs, over)"
      by (cases "game_over_check t1 t2")
    from h a [of events] have ch: "chosen_event events i = Inr (events ! nat (i - 1))"
      by simp
    from h ne g ch have "game_panel st i =
       (st, msgs @ [St_warning (drawn_msg (events ! nat (i - 1)))]
              @ (if over then [St_warning game_ended_msg] else []), None)"
      by (simp add: game_panel_def)
    then show "\<exists>before after.
          game_panel st i =
            (st, before @ [St_warning (drawn_msg (events ! nat (i - 1)))] @ after, None)"
      by blast
  qed
  from a b c d show ?thesis by blast
qed

text \<open>Claim C7 on the catalog of three events and the number 2.\<close>

theorem draw_returns_indexed_event_witness:
  "1 \<le> (2::int) \<and> (2::int) \<le> int (length [''flood'', ''riot'', ''plague''])
   \<and> chosen_event [''flood'', ''riot'', ''plague''] 2 = Inr ''riot''
   \<and> imprevisti_df loaded_session = Some (Some sample_sheet)
   \<and> team1_df loaded_session = Some default_df
   \<and> team2_df loaded_session = Some default_df
   \<and> event_list sample_sheet = Inr [Text ''flood'', Text ''riot'', Text ''plague'']
   \<and> (\<exists>before after.
          game_panel loaded_session 2 =
            (loaded_session, before @ [St_warning (drawn_msg (Text ''riot''))] @ after, None))"
proof -
  have h1: "1 \<le> (2::int) \<and> (2::int) \<le> int (length [''flood'', ''riot'', ''plague''])"
    by simp
  have h2: "imprevisti_df loaded_session = Some (Some sample_sheet)
      \<and> team1_df loaded_session = Some default_df
      \<and> team2_df loaded_session = Some default_df"
    by (simp add: loaded_session_def)
  have h3: "event_list sample_sheet = Inr [Text ''flood'', Text ''riot'', Text ''plague'']"
    by (simp add: event_list_def sample_sheet_def)
  have h4: "1 \<le> (2::int)
      \<and> (2::int) \<le> int (length [Text ''flood'', Text ''riot'', Text ''plague''])"
    by simp
  have n: "[Text ''flood'', Text ''riot'', Text ''plague''] ! nat (2 - 1) = Text ''riot''"
    by simp
  note t = draw_returns_indexed_event [where i = 2 and st = loaded_session
      and df = sample_sheet and ?t1.0 = default_df and ?t2.0 = default_df
      and events = "[Text ''flood'', Text ''riot'', Text ''plague'']"]
  from t have c1: "chosen_event [''flood'', ''riot'', ''plague''] 2 = Inr ''riot''"
    by blast
  from t h2 h3 h4 have "\<exists>before after.
          game_panel loaded_session 2 =
            (loaded_session,
             before @ [St_warning (drawn_msg
                ([Text ''flood'', Text ''riot'', Text ''plague''] ! nat (2 - 1)))] @ after,
             None)"
    by blast
  then have c2: "\<exists>before after.
          game_panel loaded_session 2 =
            (loaded_session, before @ [St_warning (drawn_msg (Text ''riot''))] @ after, None)"
    by (simp only: n)
  from h1 h2 h3 c1 c2 show ?thesis by blast
qed

section \<open>The cache of the loader\<close>

text \<open>
  Claim C8. After a first call with a URL, a second call with the same URL that falls
  within the time-to-live of the cache entry returns the same value and the same
  messages as the first, leaves the cache as it is and makes no fetch, whatever the
  network would answer then. When the first call found no usable entry, it stored one at
  its own time, so every second call less than 600 seconds later is such a call. When
  the first call found a usable entry, it made no fetch either and the entry keeps the
  time at which it was stored.
\<close>

theorem cached_load_idempotent:
  assumes "cached_load_data_from_gdrive cache t1 source1 url = (cache1, out1)"
  shows "(fresh_at cache1 url t2 \<longrightarrow>
            cached_load_data_from_gdrive cache1 t2 source2 url
              = (cache1, \<lparr>fetches = [], ui = ui out1, ret = ret out1\<rparr>))
       \<and> (\<not> fresh_at cache url t1 \<and> t1 \<le> t2 \<and> t2 < t1 + 600 \<longrightarrow> fresh_at cache1 url t2)
       \<and> (fresh_at cache url t1 \<longrightarrow> cache1 = cache \<and> fetches out1 = [])"
  using assms
  by (auto simp: cached_load_data_from_gdrive_def fresh_at_def ttl_def Let_def
      split: option.splits if_splits prod.splits)

text \<open>Claim C8 on an empty cache: a first load at time 0 that fetches the sheet, and a
  second load 599 seconds later, when every fetch would fail.\<close>

theorem cached_load_idempotent_witness:
  "cached_load_data_from_gdrive Map.empty 0 sample_source
      ''https://docs.google.com/spreadsheets/d/ABC/edit''
     = ([''https://docs.google.com/spreadsheets/d/ABC/edit'' \<mapsto> (0, [], Some sample_sheet)],
        \<lparr>fetches = [''https://docs.google.com/spreadsheets/d/ABC/export?format=xlsx''],
         ui = [], ret = Some sample_sheet\<rparr>)
   \<and> \<not> fresh_at Map.empty ''https://docs.google.com/spreadsheets/d/ABC/edit'' 0
   \<and> (0::nat) \<le> 599 \<and> (599::nat) < 0 + 600
   \<and> cached_load_data_from_gdrive
        [''https://docs.google.com/spreadsheets/d/ABC/edit'' \<mapsto> (0, [], Some sample_sheet)]
        599 failing_source ''https://docs.google.com/spreadsheets/d/ABC/edit''
       = ([''https://docs.google.com/spreadsheets/d/ABC/edit'' \<mapsto> (0, [], Some sample_sheet)],
          \<lparr>fetches = [], ui = [], ret = Some sample_sheet\<rparr>)"
proof -
  have h1: "cached_load_data_from_gdrive Map.empty 0 sample_source
      ''https://docs.google.com/spreadsheets/d/ABC/edit''
     = ([''https://docs.google.com/spreadsheets/d/ABC/edit'' \<mapsto> (0, [], Some sample_sheet)],
        \<lparr>fetches = [''https://docs.google.com/spreadsheets/d/ABC/export?format=xlsx''],
         ui = [], ret = Some sample_sheet\<rparr>)"
    by (simp add: cached_load_data_from_gdrive_def load_defs sample_source_def sample_sheet_def)
  have h2: "\<not> fresh_at Map.empty ''https://docs.google.com/spreadsheets/d/ABC/edit'' 0"
    by (simp add: fresh_at_def)
  have h3: "(0::nat) \<le> 599 \<and> (599::nat) < 0 + 600" by simp
  note t = cached_load_idempotent [OF h1, of 599 failing_source]
  from t h2 h3 have "fresh_at
      [''https://docs.google.com/spreadsheets/d/ABC/edit'' \<mapsto> (0, [], Some sample_sheet)]
      ''https://docs.google.com/spreadsheets/d/ABC/edit'' 599"
    by blast
  with t have c: "cached_load_data_from_gdrive
        [''https://docs.google.com/spreadsheets/d/ABC/edit'' \<mapsto> (0, [], Some sample_sheet)]
        599 failing_source ''https://docs.google.com/spreadsheets/d/ABC/edit''
       = ([''https://docs.google.com/spreadsheets/d/ABC/edit'' \<mapsto> (0, [], Some sample_sheet)],
          \<lparr>fetches = [], ui = [], ret = Some sample_sheet\<rparr>)"
    by simp
  from h1 h2 h3 c show ?thesis by blast
qed

section \<open>The loader never raises\<close>

text \<open>
  Claim C9. For every URL and every answer of the network, \<open>load_data_from_gdrive\<close>
  returns \<open>None\<close> or a sheet that has the column \<open>imprevisto\<close>; no exception leaves it.
  Each way of failing gives \<open>None\<close>: a URL without the host marker, an \<open>IndexError\<close> in
  the extraction of the identifier, an exception raised by the fetch or by the parser,
  and a sheet without the column. Otherwise the sheet that was read is returned.
\<close>

theorem load_never_raises:
  "(ret (load_data_from_gdrive read_excel url) = None
      \<or> (\<exists>df. ret (load_data_from_gdrive read_excel url) = Some df
               \<and> ''imprevisto'' \<in> set (map fst df)))
   \<and> (\<not> is_substr ''google.com'' url \<longrightarrow>
         ret (load_data_from_gdrive read_excel url) = None)
   \<and> (file_id_of url = Inl e \<longrightarrow> ret (load_data_from_gdrive read_excel url) = None)
   \<and> (file_id_of url = Inr file_id \<and> read_excel (export_url_of file_id) = Inl e \<longrightarrow>
         ret (load_data_from_gdrive read_excel url) = None)
   \<and> (file_id_of url = Inr file_id \<and> read_excel (export_url_of file_id) = Inr df
        \<and> ''imprevisto'' \<notin> set (map fst df) \<longrightarrow>
         ret (load_data_from_gdrive read_excel url) = None)
   \<and> (is_substr ''google.com'' url \<and> file_id_of url = Inr file_id
        \<and> read_excel (export_url_of file_id) = Inr df
        \<and> ''imprevisto'' \<in> set (map fst df) \<longrightarrow>
         ret (load_data_from_gdrive read_excel url) = Some df)"
  by (auto simp: load_data_from_gdrive_def except_clause_def Let_def split: sum.splits)

text \<open>Claim C9 on one input for each way of failing and one load that succeeds.\<close>

theorem load_never_raises_witness:
  "\<not> is_substr ''google.com'' ''https://example.com/not-google/doc''
   \<and> ret (load_data_from_gdrive sample_source ''https://example.com/not-google/doc'') = None
   \<and> file_id_of ''https://docs.google.com/spreadsheets'' = Inl index_error
   \<and> ret (load_data_from_gdrive sample_source ''https://docs.google.com/spreadsheets'') = None
   \<and> file_id_of ''https://docs.google.com/spreadsheets/d/ABC/edit'' = Inr ''ABC''
   \<and> failing_source (export_url_of ''ABC'') = Inl index_error
   \<and> ret (load_data_from_gdrive failing_source
             ''https://docs.google.com/spreadsheets/d/ABC/edit'') = None
   \<and> other_source (export_url_of ''ABC'') = Inr other_sheet
   \<and> ''imprevisto'' \<notin> set (map fst other_sheet)
   \<and> ret (load_data_from_gdrive other_source
             ''https://docs.google.com/spreadsheets/d/ABC/edit'') = None
   \<and> is_substr ''google.com'' ''https://docs.google.com/spreadsheets/d/ABC/edit''
   \<and> sample_source (export_url_of ''ABC'') = Inr sample_sheet
   \<and> ''imprevisto'' \<in> set (map fst sample_sheet)
   \<and> ret (load_data_from_gdrive sample_source
             ''https://docs.google.com/spreadsheets/d/ABC/edit'') = Some sample_sheet"
proof -
  have h1: "\<not> is_substr ''google.com'' ''https://example.com/not-google/doc''" by simp
  have h2: "file_id_of ''https://docs.google.com/spreadsheets'' = Inl index_error"
    by (simp add: file_id_of_def py_index_def)
  have h3: "file_id_of ''https://docs.google.com/spreadsheets/d/ABC/edit'' = Inr ''ABC''"
    by (simp add: file_id_of_def py_index_def)
  have h4: "failing_source (export_url_of ''ABC'') = Inl index_error"
    by (simp add: failing_source_def index_error_def)
  have h5: "other_source (export_url_of ''ABC'') = Inr other_sheet"
    by (simp add: other_source_def)
  have h6: "''imprevisto'' \<notin> set (map fst other_sheet)" by (simp add: other_sheet_def)
  have h7: "is_substr ''google.com'' ''https://docs.google.com/spreadsheets/d/ABC/edit''"
    by simp
  have h8: "sample_source (export_url_of ''ABC'') = Inr sample_sheet"
    by (simp add: sample_source_def)
  have h9: "''imprevisto'' \<in> set (map fst sample_sheet)" by (simp add: sample_sheet_def)
  have c1: "ret (load_data_from_gdrive sample_source ''https://example.com/not-google/doc'')
              = None"
    using h1 load_never_raises [where url = "''https://example.com/not-google/doc''"
        and read_excel = sample_source]
    by blast
  have c2: "ret (load_data_from_gdrive sample_source ''https://docs.google.com/spreadsheets'')
              = None"
    using h2 load_never_raises [where url = "''https://docs.google.com/spreadsheets''"
        and read_excel = sample_source and e = index_error]
    by blast
  have c3: "ret (load_data_from_gdrive failing_source
             ''https://docs.google.com/spreadsheets/d/ABC/edit'') = None"
    using h3 h4
      load_never_raises [where url = "''https://docs.google.com/spreadsheets/d/ABC/edit''"
        and read_excel = failing_source and file_id = "''ABC''" and e = index_error]
    by blast
  have c4: "ret (load_data_from_gdrive other_source
             ''https://docs.google.com/spreadsheets/d/ABC/edit'') = None"
    using h3 h5 h6
      load_never_raises [where url = "''https://docs.google.com/spreadsheets/d/ABC/edit''"
        and read_excel = other_source and file_id = "''ABC''" and df = other_sheet]
    by blast
  have c5: "ret (load_data_from_gdrive sample_source
             ''https://docs.google.com/spreadsheets/d/ABC/edit'') = Some sample_sheet"
    using h3 h7 h8 h9
      load_never_raises [where url = "''https://docs.google.com/spreadsheets/d/ABC/edit''"
        and read_excel = sample_source and file_id = "''ABC''" and df = sample_sheet]
    by blast
  from h1 h2 h3 h4 h5 h6 h7 h8 h9 c1 c2 c3 c4 c5 show ?thesis by simp
qed

end
